theory Spec2Isabelle
  imports Complex_Main "HOL-Library.AList"
begin

section \<open>Data model of \<open>PaintboardClient\<close> (src/paintboard\_client.py)\<close>

text \<open>
  Python integers are unbounded, so every value that comes from a caller, from the
  configuration or from the network is an \<open>int\<close>; an element of a \<open>bytes\<close> object is an
  \<open>int\<close> as well (Python reads \<open>buffer[i]\<close> as an integer). Lengths, offsets and the
  counters that the client only ever increments from zero are \<open>nat\<close>. A reading of
  \<open>time.time()\<close> is a \<open>real\<close> number of seconds, passed to the operations that read
  the clock.
\<close>

type_synonym byte = int

text \<open>Every exception the modelled methods can raise.\<close>

datatype error =
    NoTokensAvailable            \<comment> \<open>\<open>Exception\<close> raised by \<open>get_next_token\<close> on an empty pool\<close>
  | BatchTooLarge nat nat        \<comment> \<open>\<open>Exception\<close> raised by the size guard of \<open>create_batch_paint_data\<close>\<close>
  | AllPixelsFailed              \<comment> \<open>\<open>Exception\<close> raised when no pixel of a batch was encoded\<close>
  | IndexError                   \<comment> \<open>sequence index out of range\<close>
  | KeyError int                 \<comment> \<open>\<open>del\<close> of a key that is not in the dict\<close>
  | StructError                  \<comment> \<open>\<open>struct.pack\<close> / \<open>struct.unpack\<close> argument out of range\<close>
  | ValueError                   \<comment> \<open>a \<open>bytearray\<close> element outside \<open>range(0, 256)\<close>\<close>
  | NoAccessKeys                 \<comment> \<open>\<open>Exception\<close> raised by \<open>fetch_tokens_from_access_keys\<close> without keys\<close>
  | NoValidToken                 \<comment> \<open>\<open>Exception\<close> raised when no key yielded a token\<close>

text \<open>
  The dictionaries returned by \<open>get_status_message\<close>. The message texts of the source
  are Chinese string literals; each one is a constructor here.
\<close>

datatype status_text =
    MsgSuccess | MsgCoolingDown | MsgTokenInvalid | MsgBadRequest
  | MsgNoPermission | MsgServerError | MsgUnknownCode int

record status =
  success :: bool
  message :: status_text

text \<open>
  Callables supplied by callers are opaque: a callback is known by an identifier and
  each invocation is recorded, with its argument, in the client's \<open>invoked\<close> log.
\<close>

type_synonym callback = nat

datatype invocation =
    PaintCallback callback status      \<comment> \<open>\<open>callback(status)\<close> in \<open>handle_paint_result\<close>\<close>
  | PaintUpdate callback int int int int int  \<comment> \<open>\<open>on_paint_update(x, y, r, g, b)\<close>\<close>

text \<open>A pixel dictionary: the five mandatory keys and the optional \<open>"callback"\<close>.\<close>

record pixel =
  px_r :: int
  px_g :: int
  px_b :: int
  px_x :: int
  px_y :: int
  px_callback :: "callback option"

text \<open>An entry of \<open>self.tokens\<close>: \<open>{"uid": ..., "token": ...}\<close>.\<close>

record token_info =
  uid :: int
  token :: string

text \<open>A queued batch operation: \<open>{"pixels": ..., "callback": ...}\<close>.\<close>

record operation =
  op_pixels :: "pixel list"
  op_callback :: "callback option"

text \<open>
  The \<open>WebSocketApp\<close> object as far as the client looks at it: \<open>sock\<close> is \<open>None\<close> when
  \<open>ws.sock\<close> is missing or \<open>None\<close> and \<open>Some c\<close> for a socket whose \<open>connected\<close> attribute
  is \<open>c\<close>; \<open>send_fails\<close> says that a write raises although the socket looks connected;
  \<open>outbox\<close> lists the binary frames written so far; \<open>close_called\<close> records \<open>ws.close()\<close>.
\<close>

record websocket =
  sock :: "bool option"
  send_fails :: bool
  outbox :: "byte list list"
  close_called :: bool

text \<open>The warnings and errors the client prints; informational output is left out.\<close>

datatype diagnostic =
    TextMessageReceived
  | IncompletePaintMessage       \<comment> \<open>a \<open>0xfa\<close> message cut short\<close>
  | IncompletePaintResult        \<comment> \<open>a \<open>0xff\<close> message cut short\<close>
  | UnknownMessageType int
  | PongFailed
  | MessageHandlingError error   \<comment> \<open>the \<open>except Exception\<close> of \<open>on_websocket_message\<close>\<close>
  | TokenLengthError nat
  | TokenConversionFailed
  | PacketLengthAnomaly nat
  | FrameTooLarge                \<comment> \<open>merged data above 32 KiB\<close>
  | RateLimitReached
  | SendFailed

text \<open>The attributes of \<open>PaintboardClient\<close> set in \<open>__init__\<close>.\<close>

record client =
  tokens :: "token_info list"
  current_token_index :: nat
  batch_size :: nat
  cool_down_time :: real
  actual_batch_size :: nat
  last_batch_time :: real
  batch_queue :: "operation list"
  packet_count :: nat
  last_reset_time :: real
  chunks :: "byte list list"
  total_size :: nat
  paint_id :: int
  paint_callbacks :: "(int \<times> callback option) list"
  is_drawing_image :: bool
  ws :: "websocket option"
  ws_connected :: bool
  running :: bool
  on_paint_update :: "callback option"
  invoked :: "invocation list"
  console :: "diagnostic list"

text \<open>
  \<open>paint_callbacks\<close> is a Python dict: an association list with unique keys, read with
  \<open>map_of\<close>, written with \<open>AList.update\<close> and \<open>AList.delete\<close>. A key can be present with
  the value \<open>None\<close> (a pixel without a callback).
\<close>

definition registered :: "int \<Rightarrow> client \<Rightarrow> bool" where
  "registered pid s = (map_of (paint_callbacks s) pid \<noteq> None)"

text \<open>A state as \<open>__init__\<close> leaves it, for a given configuration and clock reading.\<close>

definition init_client :: "nat \<Rightarrow> real \<Rightarrow> real \<Rightarrow> client" where
  "init_client bs cd now =
     \<lparr> tokens = [], current_token_index = 0, batch_size = bs, cool_down_time = cd,
       actual_batch_size = 0, last_batch_time = 0, batch_queue = [], packet_count = 0,
       last_reset_time = now, chunks = [], total_size = 0, paint_id = 0,
       paint_callbacks = [], is_drawing_image = False, ws = None, ws_connected = False,
       running = False, on_paint_update = None, invoked = [], console = [] \<rparr>"

section \<open>Token pool\<close>

text \<open>
  \<open>get_next_token\<close>: raises on an empty pool, otherwise returns the token under the
  cursor and advances the cursor modulo the pool size. A cursor at or beyond the end
  of a non-empty pool makes \<open>self.tokens[...]\<close> raise \<open>IndexError\<close>.
\<close>

definition get_next_token :: "client \<Rightarrow> (error + token_info) \<times> client" where
  "get_next_token s =
     (if tokens s = [] then (Inl NoTokensAvailable, s)
      else if current_token_index s < length (tokens s) then
        (Inr (tokens s ! current_token_index s),
         s\<lparr>current_token_index := (current_token_index s + 1) mod length (tokens s)\<rparr>)
      else (Inl IndexError, s))"

text \<open>
  A contiguous sequence of \<open>m\<close> calls of \<open>get_next_token\<close>, stopping at the first
  exception. The trace pairs the cursor read before each call with the token the call
  returned.
\<close>

fun get_next_token_calls :: "nat \<Rightarrow> client \<Rightarrow> (error + (nat \<times> token_info) list) \<times> client" where
  "get_next_token_calls 0 s = (Inr [], s)"
| "get_next_token_calls (Suc m) s =
     (case get_next_token s of
        (Inl e, s') \<Rightarrow> (Inl e, s')
      | (Inr t, s') \<Rightarrow>
          (case get_next_token_calls m s' of
             (Inl e, s'') \<Rightarrow> (Inl e, s'')
           | (Inr ts, s'') \<Rightarrow> (Inr ((current_token_index s, t) # ts), s'')))"

section \<open>Packet codec: encoding\<close>

text \<open>
  \<open>struct.pack('<H', v)\<close> and \<open>struct.pack('<I', v)\<close>: little-endian, and a
  \<open>struct.error\<close> when the value does not fit. \<open>struct.unpack\<close> is the inverse on a
  buffer of exactly the right length.
\<close>

definition pack_H :: "int \<Rightarrow> error + byte list" where
  "pack_H v = (if 0 \<le> v \<and> v \<le> 65535 then Inr [v mod 256, v div 256] else Inl StructError)"

definition pack_I :: "int \<Rightarrow> error + byte list" where
  "pack_I v =
     (if 0 \<le> v \<and> v \<le> 4294967295
      then Inr [v mod 256, v div 256 mod 256, v div 65536 mod 256, v div 16777216]
      else Inl StructError)"

fun unpack_H :: "byte list \<Rightarrow> error + int" where
  "unpack_H [b0, b1] = Inr (b0 + 256 * b1)"
| "unpack_H _ = Inl StructError"

fun unpack_I :: "byte list \<Rightarrow> error + int" where
  "unpack_I [b0, b1, b2, b3] = Inr (b0 + 256 * b1 + 65536 * b2 + 16777216 * b3)"
| "unpack_I _ = Inl StructError"

text \<open>
  \<open>bytes.fromhex\<close>: ASCII whitespace is skipped in front of a byte, then two
  hexadecimal digits are read; anything else is a \<open>ValueError\<close> (\<open>None\<close> here).
\<close>

definition is_space :: "char \<Rightarrow> bool" where
  "is_space c = (let n = (of_char c :: nat) in n = 32 \<or> (9 \<le> n \<and> n \<le> 13))"

definition hex_digit :: "char \<Rightarrow> int option" where
  "hex_digit c =
     (let n = (of_char c :: nat) in
      if 48 \<le> n \<and> n \<le> 57 then Some (int n - 48)
      else if 97 \<le> n \<and> n \<le> 102 then Some (int n - 87)
      else if 65 \<le> n \<and> n \<le> 70 then Some (int n - 55)
      else None)"

fun fromhex :: "string \<Rightarrow> byte list option" where
  "fromhex [] = Some []"
| "fromhex [c] = (if is_space c then Some [] else None)"
| "fromhex (c # d # ds) =
     (if is_space c then fromhex (d # ds)
      else (case (hex_digit c, hex_digit d) of
              (Some a, Some b) \<Rightarrow> map_option ((#) (16 * a + b)) (fromhex ds)
            | _ \<Rightarrow> None))"

text \<open>Sequencing of steps that may raise.\<close>

definition bind_err :: "error + 'a \<Rightarrow> ('a \<Rightarrow> error + 'b) \<Rightarrow> error + 'b" where
  "bind_err r f = (case r of Inl e \<Rightarrow> Inl e | Inr v \<Rightarrow> f v)"

text \<open>\<open>bytearray.extend\<close> with a list of integers raises unless each is a byte.\<close>

definition is_byte :: "int \<Rightarrow> bool" where
  "is_byte v = (0 \<le> v \<and> v < 256)"

text \<open>
  The construction of \<open>paint_data\<close> in \<open>create_single_paint_data\<close>, from the opcode to
  the paint id, in the order of the source (so the first failing step decides which
  exception is raised).
\<close>

definition build_paint_data :: "pixel \<Rightarrow> token_info \<Rightarrow> byte list \<Rightarrow> int \<Rightarrow> error + byte list" where
  "build_paint_data pixel token_info token_bytes pid =
     bind_err (pack_H (px_x pixel)) (\<lambda>xb.
     bind_err (pack_H (px_y pixel)) (\<lambda>yb.
     bind_err (if is_byte (px_r pixel) \<and> is_byte (px_g pixel) \<and> is_byte (px_b pixel)
               then Inr [px_r pixel, px_g pixel, px_b pixel] else Inl ValueError) (\<lambda>rgb.
     bind_err (pack_I (uid token_info)) (\<lambda>ub.
     bind_err (pack_I pid) (\<lambda>pb.
       Inr ([0xfe] @ xb @ yb @ rgb @ take 3 ub @ token_bytes @ pb))))))"

text \<open>
  \<open>create_single_paint_data\<close>. The result \<open>Inr None\<close> is the \<open>return None\<close> of the source
  (token not convertible, wrong token length, wrong packet length); the paint id is
  consumed before the token is looked at, and the callback is stored last.
\<close>

definition create_single_paint_data ::
    "pixel \<Rightarrow> token_info \<Rightarrow> client \<Rightarrow> (error + byte list option) \<times> client" where
  "create_single_paint_data pixel token_info s =
     (let pid = paint_id s;
          s1 = s\<lparr>paint_id := (paint_id s + 1) mod 4294967296\<rparr>;
          token_hex = filter (\<lambda>c. c \<noteq> CHR ''-'') (token token_info)
      in case fromhex token_hex of
           None \<Rightarrow> (Inr None, s1\<lparr>console := console s1 @ [TokenConversionFailed]\<rparr>)
         | Some token_bytes \<Rightarrow>
             if length token_bytes \<noteq> 16
             then (Inr None, s1\<lparr>console := console s1 @ [TokenLengthError (length token_bytes)]\<rparr>)
             else (case build_paint_data pixel token_info token_bytes pid of
                     Inl e \<Rightarrow> (Inl e, s1)
                   | Inr paint_data \<Rightarrow>
                       if length paint_data \<noteq> 31
                       then (Inr None,
                             s1\<lparr>console := console s1 @ [PacketLengthAnomaly (length paint_data)]\<rparr>)
                       else (Inr (Some paint_data),
                             s1\<lparr>paint_callbacks :=
                                   AList.update pid (px_callback pixel) (paint_callbacks s1)\<rparr>)))"

text \<open>
  The \<open>for pixel in pixels\<close> loop of \<open>create_batch_paint_data\<close>, with the accumulators
  \<open>batch_data\<close> and \<open>successful_pixels\<close>. An exception of \<open>get_next_token\<close> or of the
  encoder leaves the loop with the state reached so far.
\<close>

fun batch_loop ::
    "pixel list \<Rightarrow> byte list \<Rightarrow> nat \<Rightarrow> client \<Rightarrow> (error + byte list \<times> nat) \<times> client" where
  "batch_loop [] batch_data successful_pixels s = (Inr (batch_data, successful_pixels), s)"
| "batch_loop (p # ps) batch_data successful_pixels s =
     (case get_next_token s of
        (Inl e, s1) \<Rightarrow> (Inl e, s1)
      | (Inr token_info, s1) \<Rightarrow>
          (case create_single_paint_data p token_info s1 of
             (Inl e, s2) \<Rightarrow> (Inl e, s2)
           | (Inr None, s2) \<Rightarrow> batch_loop ps batch_data successful_pixels s2
           | (Inr (Some paint_data), s2) \<Rightarrow>
               if paint_data \<noteq> []
               then batch_loop ps (batch_data @ paint_data) (successful_pixels + 1) s2
               else batch_loop ps batch_data successful_pixels s2))"

definition create_batch_paint_data :: "pixel list \<Rightarrow> client \<Rightarrow> (error + byte list) \<times> client" where
  "create_batch_paint_data pixels s =
     (if length pixels > actual_batch_size s
      then (Inl (BatchTooLarge (length pixels) (actual_batch_size s)), s)
      else (case batch_loop pixels [] 0 s of
              (Inl e, s') \<Rightarrow> (Inl e, s')
            | (Inr (batch_data, successful_pixels), s') \<Rightarrow>
                if successful_pixels = 0 then (Inl AllPixelsFailed, s')
                else (Inr batch_data, s')))"

text \<open>
  \<open>refresh_tokens\<close> (and steps 1 and 2 of \<open>initialize\<close>): \<open>results\<close> is what the HTTP
  exchange returned, one entry per access key, \<open>None\<close> for a key that yielded no
  token. The pool is replaced before it is checked for emptiness, and the effective
  batch size is recomputed only when the fetch did not raise.
\<close>

definition refresh_tokens :: "token_info option list \<Rightarrow> client \<Rightarrow> error option \<times> client" where
  "refresh_tokens results s =
     (if results = [] then (Some NoAccessKeys, s)
      else (let s1 = s\<lparr>tokens := concat (map (\<lambda>r. case r of None \<Rightarrow> [] | Some t \<Rightarrow> [t]) results)\<rparr>
            in if tokens s1 = [] then (Some NoValidToken, s1)
               else (None, s1\<lparr>actual_batch_size := min (length (tokens s1)) (batch_size s1)\<rparr>)))"

section \<open>Aggregation buffer and packet sender\<close>

definition append_data :: "byte list \<Rightarrow> client \<Rightarrow> client" where
  "append_data paint_data s =
     s\<lparr>chunks := chunks s @ [paint_data], total_size := total_size s + length paint_data\<rparr>"

text \<open>
  The copy loop of \<open>get_merged_data\<close>: \<open>result[offset:offset+len(chunk)] = chunk\<close>.
  A Python slice assignment clips both bounds to the length of \<open>result\<close>, which is what
  \<open>take\<close> and \<open>drop\<close> do.
\<close>

fun merge_chunks :: "byte list list \<Rightarrow> byte list \<Rightarrow> nat \<Rightarrow> byte list" where
  "merge_chunks [] result offset = result"
| "merge_chunks (chunk # cs) result offset =
     merge_chunks cs (take offset result @ chunk @ drop (offset + length chunk) result)
       (offset + length chunk)"

definition get_merged_data :: "client \<Rightarrow> byte list option \<times> client" where
  "get_merged_data s =
     (if total_size s = 0 then (None, s)
      else (Some (merge_chunks (chunks s) (replicate (total_size s) 0) 0),
            s\<lparr>total_size := 0, chunks := []\<rparr>))"

text \<open>
  \<open>self.ws.send(data, opcode=2)\<close>: the frame is written when there is a connected
  socket and the write goes through; otherwise the call raises (\<open>False\<close> here).
\<close>

definition ws_send :: "byte list \<Rightarrow> client \<Rightarrow> bool \<times> client" where
  "ws_send data s =
     (case ws s of
        None \<Rightarrow> (False, s)
      | Some w \<Rightarrow>
          if sock w = Some True \<and> \<not> send_fails w
          then (True, s\<lparr>ws := Some (w\<lparr>outbox := outbox w @ [data]\<rparr>)\<rparr>)
          else (False, s))"

text \<open>The binary frames written to the transport so far.\<close>

definition frames_written :: "client \<Rightarrow> byte list list" where
  "frames_written s = (case ws s of None \<Rightarrow> [] | Some w \<Rightarrow> outbox w)"

text \<open>
  \<open>self.ws and hasattr(self.ws, 'sock') and self.ws.sock and self.ws.sock.connected\<close>,
  and the same test without the last conjunct.
\<close>

definition sock_is_connected :: "client \<Rightarrow> bool" where
  "sock_is_connected s = (case ws s of None \<Rightarrow> False | Some w \<Rightarrow> sock w = Some True)"

definition sock_exists :: "client \<Rightarrow> bool" where
  "sock_exists s = (case ws s of None \<Rightarrow> False | Some w \<Rightarrow> sock w \<noteq> None)"

text \<open>
  One pass through the body of \<open>while self.running\<close> in \<open>send_packets\<close>, as defined by the
  second \<open>start_packet_sender\<close> of the class body (line 757). A Python class keeps the
  last definition of a name, so this is the sender that runs. It reads neither the
  clock nor \<open>packet_count\<close> before it writes.
\<close>

definition send_packets :: "client \<Rightarrow> client" where
  "send_packets s =
     (if chunks s \<noteq> [] \<and> sock_is_connected s then
        (case get_merged_data s of
           (None, s1) \<Rightarrow> s1
         | (Some merged_data, s1) \<Rightarrow>
             if merged_data = [] then s1
             else if length merged_data > 32 * 1024
             then s1\<lparr>console := console s1 @ [FrameTooLarge]\<rparr>
             else (let (sent, s2) = ws_send merged_data s1
                   in if sent then s2\<lparr>packet_count := packet_count s2 + 1\<rparr>
                      else s2\<lparr>console := console s2 @ [SendFailed]\<rparr>))
      else s)"

text \<open>
  The same pass in the first \<open>start_packet_sender\<close> of the class body (line 307), which
  the second definition replaces. It does test the rate window, after
  \<open>get_merged_data\<close> has emptied the buffer; only its send-failure branch puts the
  merged data back.
\<close>

definition send_packets_shadowed :: "real \<Rightarrow> client \<Rightarrow> client" where
  "send_packets_shadowed current_time s =
     (if chunks s \<noteq> [] \<and> ws_connected s \<and> sock_exists s then
        (case get_merged_data s of
           (None, s1) \<Rightarrow> s1
         | (Some merged_data, s1) \<Rightarrow>
             if merged_data = [] then s1
             else if length merged_data > 32 * 1024
             then s1\<lparr>console := console s1 @ [FrameTooLarge]\<rparr>
             else (let s2 = (if current_time - last_reset_time s1 \<ge> 1
                             then s1\<lparr>packet_count := 0, last_reset_time := current_time\<rparr>
                             else s1)
                   in if packet_count s2 \<ge> 256
                      then s2\<lparr>console := console s2 @ [RateLimitReached]\<rparr>
                      else (let (sent, s3) = ws_send merged_data s2
                            in if sent then s3\<lparr>packet_count := packet_count s3 + 1\<rparr>
                               else append_data merged_data
                                      (s3\<lparr>console := console s3 @ [SendFailed]\<rparr>))))
      else s)"

text \<open>One pass through the loop body of \<open>monitor_rate\<close>.\<close>

definition monitor_rate :: "real \<Rightarrow> client \<Rightarrow> client" where
  "monitor_rate current_time s =
     (if current_time - last_reset_time s \<ge> 1
      then s\<lparr>packet_count := 0, last_reset_time := current_time\<rparr>
      else s)"

section \<open>Cooldown gate\<close>

definition is_batch_cooling_down :: "real \<Rightarrow> client \<Rightarrow> bool" where
  "is_batch_cooling_down now s = (now * 1000 - last_batch_time s < cool_down_time s)"

section \<open>Result correlation and inbound decoding\<close>

definition get_status_message :: "int \<Rightarrow> status" where
  "get_status_message code =
     (if code = 0xef then \<lparr>success = True, message = MsgSuccess\<rparr>
      else if code = 0xee then \<lparr>success = False, message = MsgCoolingDown\<rparr>
      else if code = 0xed then \<lparr>success = False, message = MsgTokenInvalid\<rparr>
      else if code = 0xec then \<lparr>success = False, message = MsgBadRequest\<rparr>
      else if code = 0xeb then \<lparr>success = False, message = MsgNoPermission\<rparr>
      else if code = 0xea then \<lparr>success = False, message = MsgServerError\<rparr>
      else \<lparr>success = False, message = MsgUnknownCode code\<rparr>)"

text \<open>
  \<open>handle_paint_result\<close>. The \<open>del\<close> statement stands after the \<open>if paint_id in ...\<close>
  block, not inside it, so it runs for an id that is not in the dict too and raises
  \<open>KeyError\<close> there, before the success test. An exception of the callback itself is
  caught by the source and only printed, so an invocation is recorded either way.
\<close>

definition handle_paint_result :: "int \<Rightarrow> int \<Rightarrow> real \<Rightarrow> client \<Rightarrow> error option \<times> client" where
  "handle_paint_result pid code now s =
     (let s1 = (case map_of (paint_callbacks s) pid of
                  Some (Some cb) \<Rightarrow>
                    s\<lparr>invoked := invoked s @ [PaintCallback cb (get_status_message code)]\<rparr>
                | _ \<Rightarrow> s)
      in if map_of (paint_callbacks s1) pid = None then (Some (KeyError pid), s1)
         else (let s2 = s1\<lparr>paint_callbacks := AList.delete pid (paint_callbacks s1)\<rparr>
               in if code = 0xef then (None, s2\<lparr>last_batch_time := now * 1000\<rparr>)
                  else (None, s2)))"

definition handle_paint_message :: "int \<Rightarrow> int \<Rightarrow> int \<Rightarrow> int \<Rightarrow> int \<Rightarrow> client \<Rightarrow> client" where
  "handle_paint_message x y color_r color_g color_b s =
     (case on_paint_update s of
        None \<Rightarrow> s
      | Some cb \<Rightarrow> s\<lparr>invoked := invoked s @ [PaintUpdate cb x y color_r color_g color_b]\<rparr>)"

text \<open>\<open>buffer[i]\<close> raises \<open>IndexError\<close> past the end; \<open>buffer[i:j]\<close> never raises.\<close>

definition index :: "byte list \<Rightarrow> nat \<Rightarrow> error + byte" where
  "index buffer i = (if i < length buffer then Inr (buffer ! i) else Inl IndexError)"

definition slice :: "byte list \<Rightarrow> nat \<Rightarrow> nat \<Rightarrow> byte list" where
  "slice buffer i j = take (j - i) (drop i buffer)"

text \<open>
  The body of \<open>while offset < len(buffer)\<close> in \<open>on_websocket_message\<close>, for one message
  tag at \<open>offset\<close>: it either goes on at a new offset, or leaves the loop by \<open>break\<close>
  (\<open>Stop None\<close>) or by an exception (\<open>Stop (Some e)\<close>).
\<close>

datatype loop_step = Continue nat client | Stop "error option" client

fun state_of :: "loop_step \<Rightarrow> client" where
  "state_of (Continue _ s) = s"
| "state_of (Stop _ s) = s"

definition decode_paint_message :: "byte list \<Rightarrow> nat \<Rightarrow> client \<Rightarrow> loop_step" where
  "decode_paint_message buffer offset s =
     (if offset + 6 \<le> length buffer then
        (case unpack_H (slice buffer offset (offset + 2)) of Inl e \<Rightarrow> Stop (Some e) s | Inr x \<Rightarrow>
         case unpack_H (slice buffer (offset + 2) (offset + 4)) of Inl e \<Rightarrow> Stop (Some e) s | Inr y \<Rightarrow>
         case index buffer (offset + 4) of Inl e \<Rightarrow> Stop (Some e) s | Inr color_r \<Rightarrow>
         case index buffer (offset + 5) of Inl e \<Rightarrow> Stop (Some e) s | Inr color_g \<Rightarrow>
         case index buffer (offset + 6) of Inl e \<Rightarrow> Stop (Some e) s | Inr color_b \<Rightarrow>
           Continue (offset + 7) (handle_paint_message x y color_r color_g color_b s))
      else Stop None (s\<lparr>console := console s @ [IncompletePaintMessage]\<rparr>))"

definition decode_paint_result :: "byte list \<Rightarrow> nat \<Rightarrow> real \<Rightarrow> client \<Rightarrow> loop_step" where
  "decode_paint_result buffer offset now s =
     (if offset + 4 \<le> length buffer then
        (case unpack_I (slice buffer offset (offset + 4)) of Inl e \<Rightarrow> Stop (Some e) s | Inr pid \<Rightarrow>
         case index buffer (offset + 4) of Inl e \<Rightarrow> Stop (Some e) s | Inr code \<Rightarrow>
           (case handle_paint_result pid code now s of
              (Some e, s1) \<Rightarrow> Stop (Some e) s1
            | (None, s1) \<Rightarrow> Continue (offset + 5) s1))
      else Stop None (s\<lparr>console := console s @ [IncompletePaintResult]\<rparr>))"

definition decode_message :: "byte list \<Rightarrow> nat \<Rightarrow> real \<Rightarrow> client \<Rightarrow> loop_step" where
  "decode_message buffer offset0 now s =
     (let msg_type = buffer ! offset0; offset = offset0 + 1 in
      if msg_type = 0xfa then decode_paint_message buffer offset s
      else if msg_type = 0xfc then
        (let (sent, s1) = ws_send [0xfb] s
         in Continue offset (if sent then s1 else s1\<lparr>console := console s1 @ [PongFailed]\<rparr>))
      else if msg_type = 0xff then decode_paint_result buffer offset now s
      else Continue offset (s\<lparr>console := console s @ [UnknownMessageType msg_type]\<rparr>))"

text \<open>
  The loop itself. Every \<open>Continue\<close> of \<open>decode_message\<close> is at a larger offset, so the
  loop ends; a step that would not advance ends it as well.
\<close>

function message_loop :: "byte list \<Rightarrow> nat \<Rightarrow> real \<Rightarrow> client \<Rightarrow> error option \<times> client" where
  "message_loop buffer offset now s =
     (if offset < length buffer then
        (case decode_message buffer offset now s of
           Stop e s' \<Rightarrow> (e, s')
         | Continue offset' s' \<Rightarrow>
             if offset < offset' then message_loop buffer offset' now s' else (None, s'))
      else (None, s))"
  by pat_completeness auto
termination
  by (relation "measure (\<lambda>(buffer, offset, now, s). length buffer - offset)") auto

declare message_loop.simps [simp del]

datatype message = Text string | Binary "byte list"

text \<open>
  \<open>on_websocket_message\<close>: the whole body is inside \<open>try ... except Exception\<close>, so an
  exception raised while decoding ends the handling of this frame and is printed.
\<close>

definition on_websocket_message :: "message \<Rightarrow> real \<Rightarrow> client \<Rightarrow> client" where
  "on_websocket_message msg now s =
     (case msg of
        Text _ \<Rightarrow> s\<lparr>console := console s @ [TextMessageReceived]\<rparr>
      | Binary buffer \<Rightarrow>
          (case message_loop buffer 0 now s of
             (None, s') \<Rightarrow> s'
           | (Some e, s') \<Rightarrow> s'\<lparr>console := console s' @ [MessageHandlingError e]\<rparr>))"

section \<open>The loops as one trace\<close>

text \<open>
  The sender loop interleaved with the other writers of the state it reads and of the
  transport: a submission appending a batch, the rate monitor, an inbound frame being
  handled, and the socket changing under them. The body of a thread's loop runs
  only while \<open>self.running\<close> holds.
\<close>

datatype event =
    Append "byte list"
  | SenderPass
  | MonitorPass real
  | Inbound message real
  | SocketChange "bool option" bool

fun step :: "event \<Rightarrow> client \<Rightarrow> client" where
  "step (Append d) s = append_data d s"
| "step SenderPass s = (if running s then send_packets s else s)"
| "step (MonitorPass current_time) s = (if running s then monitor_rate current_time s else s)"
| "step (Inbound msg now) s = on_websocket_message msg now s"
| "step (SocketChange c f) s =
     (case ws s of None \<Rightarrow> s | Some w \<Rightarrow> s\<lparr>ws := Some (w\<lparr>sock := c, send_fails := f\<rparr>)\<rparr>)"

fun run :: "event list \<Rightarrow> client \<Rightarrow> client" where
  "run [] s = s"
| "run (e # es) s = run es (step e s)"

text \<open>No binary frame written so far is longer than 32 KiB.\<close>

definition frames_bounded :: "client \<Rightarrow> bool" where
  "frames_bounded s = list_all (\<lambda>f. length f \<le> 32768) (frames_written s)"

text \<open>
  A client whose sender thread runs, whose socket is connected and takes writes, and
  whose buffer is empty.
\<close>

definition sender_ready :: "client \<Rightarrow> bool" where
  "sender_ready s =
     (running s \<and> chunks s = [] \<and> total_size s = 0 \<and>
      (case ws s of None \<Rightarrow> False | Some w \<Rightarrow> sock w = Some True \<and> \<not> send_fails w))"

text \<open>A client whose buffer holds more than 32 KiB, in one chunk.\<close>

definition oversized_client :: client where
  "oversized_client =
     \<lparr> tokens = [], current_token_index = 0, batch_size = 10, cool_down_time = 1145,
       actual_batch_size = 0, last_batch_time = 0, batch_queue = [], packet_count = 0,
       last_reset_time = 0, chunks = [replicate 32769 0], total_size = 32769, paint_id = 0,
       paint_callbacks = [], is_drawing_image = False,
       ws = Some \<lparr>sock = Some True, send_fails = False, outbox = [], close_called = False\<rparr>,
       ws_connected = True, running = True, on_paint_update = None, invoked = [],
       console = [] \<rparr>"

section \<open>Teardown\<close>

text \<open>
  \<open>close\<close>, and the \<open>on_close\<close> handler that \<open>initialize_websocket_async\<close> installs and the
  library calls once the connection is down (its printing is left out).
\<close>

definition close :: "client \<Rightarrow> client" where
  "close s =
     (let s1 = s\<lparr>is_drawing_image := False, batch_queue := [], running := False\<rparr>
      in case ws s1 of
           None \<Rightarrow> s1
         | Some w \<Rightarrow> s1\<lparr>ws := Some (w\<lparr>close_called := True\<rparr>)\<rparr>)"

definition on_close :: "client \<Rightarrow> client" where
  "on_close s = s\<lparr>ws_connected := False\<rparr>"

section \<open>Example states\<close>

text \<open>
  A pool of three tokens, a client that \<open>initialize\<close> has brought up with this pool and
  the shipped configuration (\<open>BATCH_SIZE = 10\<close>, \<open>COOL_DOWN_TIME = 1145\<close>), and a pixel.
\<close>

definition example_tokens :: "token_info list" where
  "example_tokens =
     [\<lparr>uid = 1048914, token = ''00112233-4455-6677-8899-aabbccddeeff''\<rparr>,
      \<lparr>uid = 1683526, token = ''0f1e2d3c-4b5a-6978-8796-a5b4c3d2e1f0''\<rparr>,
      \<lparr>uid = 16777217, token = ''FFEEDDCCBBAA99887766554433221100''\<rparr>]"

definition example_socket :: websocket where
  "example_socket = \<lparr>sock = Some True, send_fails = False, outbox = [], close_called = False\<rparr>"

definition example_client :: client where
  "example_client =
     (init_client 10 1145 0)
       \<lparr>tokens := example_tokens, actual_batch_size := 3, ws := Some example_socket,
        ws_connected := True, running := True\<rparr>"

text \<open>The same client with two requests pending, one of them without a callback.\<close>

definition pending_client :: client where
  "pending_client = example_client\<lparr>paint_id := 2, paint_callbacks := [(0, Some 1), (1, None)]\<rparr>"

text \<open>
  The packet that \<open>create_single_paint_data\<close> builds for the example pixel and the first
  example token, and a client that has written 256 frames since the rate window was
  reset at clock reading 10 and has this packet in its buffer.
\<close>

definition example_packet :: "byte list" where
  "example_packet =
     [254, 231, 3, 87, 2, 255, 128, 0, 82, 1, 16,
      0, 17, 34, 51, 68, 85, 102, 119, 136, 153, 170, 187, 204, 221, 238, 255,
      0, 0, 0, 0]"

definition rate_exhausted_client :: client where
  "rate_exhausted_client =
     example_client\<lparr>packet_count := 256, last_reset_time := 10,
                    chunks := [example_packet], total_size := 31\<rparr>"

definition example_pixel :: pixel where
  "example_pixel = \<lparr>px_r = 255, px_g = 128, px_b = 0, px_x = 999, px_y = 599, px_callback = Some 1\<rparr>"

section \<open>Round-robin token rotation\<close>

lemma get_next_token_calls_trace:
  "current_token_index s < length (tokens s) \<Longrightarrow>
   get_next_token_calls m s =
     (Inr (map (\<lambda>j. ((current_token_index s + j) mod length (tokens s),
                      tokens s ! ((current_token_index s + j) mod length (tokens s)))) [0..<m]),
      s\<lparr>current_token_index := (current_token_index s + m) mod length (tokens s)\<rparr>)"
proof (induction m arbitrary: s)
  case 0
  then show ?case by simp
next
  case (Suc m)
  let ?n = "length (tokens s)"
  let ?s' = "s\<lparr>current_token_index := (current_token_index s + 1) mod ?n\<rparr>"
  from Suc.prems have ne: "tokens s \<noteq> []" by auto
  have step: "get_next_token s = (Inr (tokens s ! current_token_index s), ?s')"
    using Suc.prems ne by (simp add: get_next_token_def)
  have lt: "current_token_index ?s' < length (tokens ?s')"
    using ne by simp
  have idx: "\<And>j. (Suc (current_token_index s) mod ?n + j) mod ?n = Suc (current_token_index s + j) mod ?n"
    by (metis add_Suc mod_add_left_eq)
  have upt: "[0..<Suc m] = 0 # map Suc [0..<m]"
    by (simp add: upt_conv_Cons map_Suc_upt del: upt_Suc)
  show ?case
    using Suc.IH [OF lt] Suc.prems
    by (simp add: step idx upt comp_def del: upt_Suc)
qed

lemma concat_replicate_snoc:
  "concat (replicate (Suc k) xs) = concat (replicate k xs) @ xs"
  by (induction k) simp_all

lemma map_mod_upt_rounds:
  "0 < n \<Longrightarrow> map (\<lambda>j. f (j mod n)) [0..<k * n] = concat (replicate k (map f [0..<n]))"
proof (induction k)
  case 0
  then show ?case by simp
next
  case (Suc k)
  have a: "Suc k * n = k * n + n" by simp
  have b: "[0..<k * n + n] = [0..<k * n] @ [k * n..<k * n + n]"
    by (rule upt_add_eq_append) simp
  have c: "[k * n..<k * n + n] = map (\<lambda>i. i + k * n) [0..<n]"
    by (simp only: map_add_upt add.commute [of n "k * n"])
  have last: "map (\<lambda>j. f (j mod n)) (map (\<lambda>i. i + k * n) [0..<n]) = map f [0..<n]"
    by (simp add: comp_def)
  have d: "concat (replicate (Suc k) (map f [0..<n])) = concat (replicate k (map f [0..<n])) @ map f [0..<n]"
    by (rule concat_replicate_snoc)
  show ?case
    by (simp only: a b c d map_append last Suc.IH [OF Suc.prems])
qed

lemma count_list_concat_replicate:
  "count_list (concat (replicate k xs)) a = k * count_list xs a"
  by (induction k) simp_all

lemma count_list_upt: "count_list [0..<n] i = (if i < n then 1 else 0)"
  by (induction n) auto

text \<open>
  C9. For a non-empty pool of \<open>n\<close> tokens and every \<open>k\<close>, \<open>k * n\<close> consecutive calls of
  \<open>get_next_token\<close> from cursor 0 all succeed, walk the pool \<open>k\<close> times in order and leave
  the cursor at 0 again: every pool position is handed out exactly \<open>k\<close> times, and a
  token is returned \<open>k\<close> times for each of its occurrences in the pool. Each call
  with the cursor inside the pool returns the token under it and advances the cursor
  by one modulo \<open>n\<close>. A call on an empty pool raises the no-token exception and
  leaves the state as it was.
\<close>

theorem get_next_token_round_robin:
  "(tokens s \<noteq> [] \<and> current_token_index s = 0 \<longrightarrow>
      (\<exists>trace.
         get_next_token_calls (k * length (tokens s)) s = (Inr trace, s) \<and>
         trace = concat (replicate k (enumerate 0 (tokens s))) \<and>
         (\<forall>i < length (tokens s). count_list (map fst trace) i = k) \<and>
         (\<forall>t. count_list (map snd trace) t = k * count_list (tokens s) t))) \<and>
   (current_token_index s < length (tokens s) \<longrightarrow>
      get_next_token s =
        (Inr (tokens s ! current_token_index s),
         s\<lparr>current_token_index := (current_token_index s + 1) mod length (tokens s)\<rparr>)) \<and>
   (tokens s = [] \<longrightarrow> get_next_token s = (Inl NoTokensAvailable, s))"
proof (intro conjI impI)
  assume a: "tokens s \<noteq> [] \<and> current_token_index s = 0"
  let ?n = "length (tokens s)"
  let ?trace = "concat (replicate k (enumerate 0 (tokens s)))"
  from a have n: "0 < ?n" and c: "current_token_index s = 0" by simp_all
  have lt: "current_token_index s < ?n" using n c by simp
  have en: "map (\<lambda>i. (i, tokens s ! i)) [0..<?n] = enumerate 0 (tokens s)"
    by (rule nth_equalityI) (simp_all add: nth_enumerate_eq)
  have tr: "map (\<lambda>j. (j mod ?n, tokens s ! (j mod ?n))) [0..<k * ?n] = ?trace"
    using map_mod_upt_rounds [OF n, of "\<lambda>i. (i, tokens s ! i)" k] by (simp only: en)
  have fin: "s\<lparr>current_token_index := k * ?n mod ?n\<rparr> = s"
    using c by simp
  have "get_next_token_calls (k * ?n) s =
          (Inr (map (\<lambda>j. ((0 + j) mod ?n, tokens s ! ((0 + j) mod ?n))) [0..<k * ?n]),
           s\<lparr>current_token_index := (0 + k * ?n) mod ?n\<rparr>)"
    using get_next_token_calls_trace [OF lt, of "k * ?n"] by (simp only: c)
  then have run: "get_next_token_calls (k * ?n) s = (Inr ?trace, s)"
    by (simp only: fin add_0 tr)
  have fsts: "map fst ?trace = concat (replicate k [0..<?n])"
    by (simp add: map_concat map_fst_enumerate)
  have snds: "map snd ?trace = concat (replicate k (tokens s))"
    by (simp add: map_concat map_snd_enumerate)
  have pos: "\<forall>i < ?n. count_list (map fst ?trace) i = k"
    by (simp add: fsts count_list_concat_replicate count_list_upt)
  have tok: "\<forall>t. count_list (map snd ?trace) t = k * count_list (tokens s) t"
    by (simp add: snds count_list_concat_replicate)
  show "\<exists>trace.
         get_next_token_calls (k * length (tokens s)) s = (Inr trace, s) \<and>
         trace = concat (replicate k (enumerate 0 (tokens s))) \<and>
         (\<forall>i < length (tokens s). count_list (map fst trace) i = k) \<and>
         (\<forall>t. count_list (map snd trace) t = k * count_list (tokens s) t)"
    using run pos tok by blast
next
  assume "current_token_index s < length (tokens s)"
  then show "get_next_token s =
        (Inr (tokens s ! current_token_index s),
         s\<lparr>current_token_index := (current_token_index s + 1) mod length (tokens s)\<rparr>)"
    by (auto simp: get_next_token_def)
next
  assume "tokens s = []"
  then show "get_next_token s = (Inl NoTokensAvailable, s)"
    by (simp add: get_next_token_def)
qed


theorem get_next_token_round_robin_witness:
  "tokens example_client \<noteq> [] \<and> current_token_index example_client = 0 \<and>
   get_next_token_calls 6 example_client =
     (Inr (concat (replicate 2 (enumerate 0 example_tokens))), example_client) \<and>
   current_token_index example_client < length (tokens example_client) \<and>
   get_next_token example_client =
     (Inr (example_tokens ! 0), example_client\<lparr>current_token_index := 1\<rparr>) \<and>
   tokens (init_client 10 1145 0) = [] \<and>
   get_next_token (init_client 10 1145 0) = (Inl NoTokensAvailable, init_client 10 1145 0)"
proof -
  have t: "tokens example_client = example_tokens" "current_token_index example_client = 0"
    by (simp_all add: example_client_def init_client_def)
  have ne: "example_tokens \<noteq> []" "length example_tokens = 3"
    by (simp_all add: example_tokens_def)
  have e: "tokens (init_client 10 1145 0) = []"
    by (simp add: init_client_def)
  have a: "get_next_token_calls 6 example_client =
             (Inr (concat (replicate 2 (enumerate 0 example_tokens))), example_client)"
    using get_next_token_round_robin [of example_client 2] t ne by auto
  have b: "get_next_token example_client =
             (Inr (example_tokens ! 0), example_client\<lparr>current_token_index := 1\<rparr>)"
    using get_next_token_round_robin [of example_client 0] t ne by simp
  have c: "get_next_token (init_client 10 1145 0) = (Inl NoTokensAvailable, init_client 10 1145 0)"
    using get_next_token_round_robin [of "init_client 10 1145 0" 0] e by simp
  show ?thesis using a b c t ne e by simp
qed

section \<open>The outbound packet\<close>

text \<open>Little-endian byte splitting of two-, three- and four-byte values.\<close>

lemma le_bytes_H: "v mod 256 + 256 * (v div 256) = (v::int)"
  by (rule mod_mult_div_eq)

lemma le_bytes_24: "(u::int) mod 256 + 256 * (u div 256 mod 256) + 65536 * (u div 65536 mod 256) = u mod 16777216"
proof -
  have a: "u mod (256 * 65536) = 256 * (u div 256 mod 65536) + u mod 256"
    by (rule zmod_zmult2_eq) simp
  have b: "(u div 256) mod (256 * 256) = 256 * (u div 256 div 256 mod 256) + u div 256 mod 256"
    by (rule zmod_zmult2_eq) simp
  have c: "u div 256 div 256 = u div (256 * 256)"
    by (rule zdiv_zmult2_eq [symmetric]) simp
  have n1: "(256::int) * 65536 = 16777216" and n2: "(256::int) * 256 = 65536" by simp_all
  from a b c show ?thesis unfolding n1 n2 by (simp only: distrib_left mult.assoc [symmetric] n2)
qed

lemma le_bytes_I:
  "v mod 256 + 256 * (v div 256 mod 256) + 65536 * (v div 65536 mod 256) + 16777216 * (v div 16777216) = (v::int)"
proof -
  have "v mod 16777216 + 16777216 * (v div 16777216) = v" by (rule mod_mult_div_eq)
  then show ?thesis by (simp only: le_bytes_24)
qed

lemma pack_H_ok: "0 \<le> v \<Longrightarrow> v \<le> 65535 \<Longrightarrow> pack_H v = Inr [v mod 256, v div 256]"
  by (simp add: pack_H_def)

lemma pack_I_ok:
  "0 \<le> v \<Longrightarrow> v \<le> 4294967295 \<Longrightarrow>
   pack_I v = Inr [v mod 256, v div 256 mod 256, v div 65536 mod 256, v div 16777216]"
  by (simp add: pack_I_def)

lemma build_paint_data_ok:
  assumes "0 \<le> px_x p" "px_x p \<le> 65535" "0 \<le> px_y p" "px_y p \<le> 65535"
    and "is_byte (px_r p)" "is_byte (px_g p)" "is_byte (px_b p)"
    and "0 \<le> uid t" "uid t \<le> 4294967295" "0 \<le> pid" "pid \<le> 4294967295"
  shows "build_paint_data p t tb pid =
           Inr ([0xfe, px_x p mod 256, px_x p div 256, px_y p mod 256, px_y p div 256,
                 px_r p, px_g p, px_b p,
                 uid t mod 256, uid t div 256 mod 256, uid t div 65536 mod 256] @ tb @
                [pid mod 256, pid div 256 mod 256, pid div 65536 mod 256, pid div 16777216])"
  using assms by (simp add: build_paint_data_def bind_err_def pack_H_ok pack_I_ok)


lemma create_single_paint_data_ok:
  assumes x: "0 \<le> px_x p" "px_x p \<le> 65535" and y: "0 \<le> px_y p" "px_y p \<le> 65535"
    and rgb: "is_byte (px_r p)" "is_byte (px_g p)" "is_byte (px_b p)"
    and tok: "fromhex (filter (\<lambda>c. c \<noteq> CHR ''-'') (token t)) = Some tb" "length tb = 16"
    and u: "0 \<le> uid t" "uid t \<le> 4294967295"
    and pid: "0 \<le> paint_id s" "paint_id s \<le> 4294967295"
  shows "create_single_paint_data p t s =
           (Inr (Some ([0xfe, px_x p mod 256, px_x p div 256, px_y p mod 256, px_y p div 256,
                        px_r p, px_g p, px_b p,
                        uid t mod 256, uid t div 256 mod 256, uid t div 65536 mod 256] @ tb @
                       [paint_id s mod 256, paint_id s div 256 mod 256,
                        paint_id s div 65536 mod 256, paint_id s div 16777216])),
            s\<lparr>paint_id := (paint_id s + 1) mod 4294967296,
              paint_callbacks := AList.update (paint_id s) (px_callback p) (paint_callbacks s)\<rparr>)"
  using tok build_paint_data_ok [OF x y rgb u pid, of tb]
  by (simp add: create_single_paint_data_def Let_def)

text \<open>
  C1. For a pixel with \<open>x\<close> in \<open>[0, 1000)\<close>, \<open>y\<close> in \<open>[0, 600)\<close>, \<open>r\<close>, \<open>g\<close>, \<open>b\<close> in \<open>[0, 256)\<close> and a
  token whose text decodes to exactly 16 bytes, \<open>create_single_paint_data\<close> returns a
  packet of exactly 31 bytes laid out as opcode \<open>0xfe\<close>, \<open>x\<close> and \<open>y\<close> as two little-endian
  bytes each, \<open>r\<close>, \<open>g\<close>, \<open>b\<close>, the low 24 bits of the account id in three bytes, the 16
  token bytes and the paint id in four little-endian bytes. Reading the fields back
  from their places gives the same \<open>x\<close>, \<open>y\<close>, \<open>r\<close>, \<open>g\<close>, \<open>b\<close> and a token of 16 bytes, and
  so does the client's own decoder of a board update, whose payload has the layout
  of bytes 1 to 7. The account id is a \<open>uint32\<close> and the paint id is the client's
  counter, which stays below \<open>2^32\<close>.
\<close>

theorem create_single_paint_data_layout:
  assumes x: "0 \<le> px_x p" "px_x p < 1000" and y: "0 \<le> px_y p" "px_y p < 600"
    and r: "0 \<le> px_r p" "px_r p < 256" and g: "0 \<le> px_g p" "px_g p < 256"
    and b: "0 \<le> px_b p" "px_b p < 256"
    and tok: "fromhex (filter (\<lambda>c. c \<noteq> CHR ''-'') (token t)) = Some tb" "length tb = 16"
    and u: "0 \<le> uid t" "uid t < 4294967296"
    and pid: "0 \<le> paint_id s" "paint_id s < 4294967296"
  shows "\<exists>packet s'.
           create_single_paint_data p t s = (Inr (Some packet), s') \<and>
           length packet = 31 \<and>
           packet = [0xfe] @ [px_x p mod 256, px_x p div 256] @ [px_y p mod 256, px_y p div 256] @
                    [px_r p, px_g p, px_b p] @
                    [uid t mod 256, uid t div 256 mod 256, uid t div 65536 mod 256] @ tb @
                    [paint_id s mod 256, paint_id s div 256 mod 256,
                     paint_id s div 65536 mod 256, paint_id s div 16777216] \<and>
           index packet 0 = Inr 0xfe \<and>
           unpack_H (slice packet 1 3) = Inr (px_x p) \<and>
           unpack_H (slice packet 3 5) = Inr (px_y p) \<and>
           index packet 5 = Inr (px_r p) \<and>
           index packet 6 = Inr (px_g p) \<and>
           index packet 7 = Inr (px_b p) \<and>
           unpack_I (slice packet 8 11 @ [0]) = Inr (uid t mod 16777216) \<and>
           slice packet 11 27 = tb \<and> length (slice packet 11 27) = 16 \<and>
           unpack_I (slice packet 27 31) = Inr (paint_id s) \<and>
           decode_paint_message (0xfa # slice packet 1 8) 1 s' =
             Continue 8 (handle_paint_message (px_x p) (px_y p) (px_r p) (px_g p) (px_b p) s')"
proof -
  let ?packet = "[0xfe, px_x p mod 256, px_x p div 256, px_y p mod 256, px_y p div 256,
                  px_r p, px_g p, px_b p,
                  uid t mod 256, uid t div 256 mod 256, uid t div 65536 mod 256] @ tb @
                 [paint_id s mod 256, paint_id s div 256 mod 256,
                  paint_id s div 65536 mod 256, paint_id s div 16777216]"
  let ?s' = "s\<lparr>paint_id := (paint_id s + 1) mod 4294967296,
               paint_callbacks := AList.update (paint_id s) (px_callback p) (paint_callbacks s)\<rparr>"
  have enc: "create_single_paint_data p t s = (Inr (Some ?packet), ?s')"
    using assms by (intro create_single_paint_data_ok) (simp_all add: is_byte_def)
  have len: "length ?packet = 31" using tok by simp
  note x' = le_bytes_H [of "px_x p"]
  note y' = le_bytes_H [of "px_y p"]
  have hx: "unpack_H (slice ?packet 1 3) = Inr (px_x p)"
    by (simp add: slice_def x')
  have hy: "unpack_H (slice ?packet 3 5) = Inr (px_y p)"
    by (simp add: slice_def y')
  have i0: "index ?packet 0 = Inr 0xfe" by (simp add: index_def)
  have i5: "index ?packet 5 = Inr (px_r p)" by (simp add: index_def)
  have i6: "index ?packet 6 = Inr (px_g p)" by (simp add: index_def)
  have i7: "index ?packet 7 = Inr (px_b p)" by (simp add: index_def)
  have hu0: "slice ?packet 8 11 @ [0] =
               [uid t mod 256, uid t div 256 mod 256, uid t div 65536 mod 256, 0]"
    by (simp add: slice_def)
  have hu: "unpack_I (slice ?packet 8 11 @ [0]) = Inr (uid t mod 16777216)"
    by (simp only: hu0 unpack_I.simps mult_zero_right add_0_right le_bytes_24)
  have ht: "slice ?packet 11 27 = tb" using tok by (simp add: slice_def)
  have hp0: "slice ?packet 27 31 =
               [paint_id s mod 256, paint_id s div 256 mod 256,
                paint_id s div 65536 mod 256, paint_id s div 16777216]"
    using tok by (simp add: slice_def)
  have hp: "unpack_I (slice ?packet 27 31) = Inr (paint_id s)"
    by (simp only: hp0 unpack_I.simps le_bytes_I)
  have dec: "decode_paint_message (0xfa # slice ?packet 1 8) 1 ?s' =
               Continue 8 (handle_paint_message (px_x p) (px_y p) (px_r p) (px_g p) (px_b p) ?s')"
    by (simp add: decode_paint_message_def slice_def index_def x' y')
  have lay: "?packet = [0xfe] @ [px_x p mod 256, px_x p div 256] @ [px_y p mod 256, px_y p div 256] @
                    [px_r p, px_g p, px_b p] @
                    [uid t mod 256, uid t div 256 mod 256, uid t div 65536 mod 256] @ tb @
                    [paint_id s mod 256, paint_id s div 256 mod 256,
                     paint_id s div 65536 mod 256, paint_id s div 16777216]"
    by simp
  have tl: "length (slice ?packet 11 27) = 16"
    by (simp only: ht tok(2))
  show ?thesis
    apply (rule exI [of _ ?packet])
    apply (rule exI [of _ ?s'])
    apply (intro conjI)
    apply (rule enc)
    apply (rule len)
    apply (rule lay)
    apply (rule i0)
    apply (rule hx)
    apply (rule hy)
    apply (rule i5)
    apply (rule i6)
    apply (rule i7)
    apply (rule hu)
    apply (rule ht)
    apply (rule tl)
    apply (rule hp)
    apply (rule dec)
    done
qed

text \<open>The first example token decodes to sixteen bytes.\<close>

lemma fromhex_example_token:
  "fromhex (filter (\<lambda>c. c \<noteq> CHR ''-'') (token (example_tokens ! 0))) =
     Some [0, 17, 34, 51, 68, 85, 102, 119, 136, 153, 170, 187, 204, 221, 238, 255]"
  by (simp add: example_tokens_def hex_digit_def is_space_def)

theorem create_single_paint_data_layout_witness:
  "0 \<le> px_x example_pixel \<and> px_x example_pixel < 1000 \<and>
   0 \<le> px_y example_pixel \<and> px_y example_pixel < 600 \<and>
   fst (create_single_paint_data example_pixel (example_tokens ! 0) example_client) =
     Inr (Some [254, 231, 3, 87, 2, 255, 128, 0, 82, 1, 16,
                0, 17, 34, 51, 68, 85, 102, 119, 136, 153, 170, 187, 204, 221, 238, 255,
                0, 0, 0, 0])"
proof -
  have px: "px_x example_pixel = 999" "px_y example_pixel = 599" "px_r example_pixel = 255"
    "px_g example_pixel = 128" "px_b example_pixel = 0"
    by (simp_all add: example_pixel_def)
  have tk: "uid (example_tokens ! 0) = 1048914"
    by (simp add: example_tokens_def)
  have st: "paint_id example_client = 0"
    by (simp add: example_client_def init_client_def)
  have h: "0 \<le> px_x example_pixel" "px_x example_pixel < 1000"
    "0 \<le> px_y example_pixel" "px_y example_pixel < 600"
    "0 \<le> px_r example_pixel" "px_r example_pixel < 256"
    "0 \<le> px_g example_pixel" "px_g example_pixel < 256"
    "0 \<le> px_b example_pixel" "px_b example_pixel < 256"
    by (simp_all add: px)
  have l: "length [0, 17, 34, 51, 68, 85, 102, 119, 136, 153, 170, 187, 204, 221, 238, 255 :: int] = 16"
    by simp
  have u: "0 \<le> uid (example_tokens ! 0)" "uid (example_tokens ! 0) < 4294967296"
    by (simp_all add: tk)
  have p: "0 \<le> paint_id example_client" "paint_id example_client < 4294967296"
    by (simp_all add: st)
  from create_single_paint_data_layout [OF h fromhex_example_token l u p]
  obtain packet s' where
    e: "create_single_paint_data example_pixel (example_tokens ! 0) example_client =
          (Inr (Some packet), s')"
    and lay: "packet = [0xfe] @ [px_x example_pixel mod 256, px_x example_pixel div 256] @
                    [px_y example_pixel mod 256, px_y example_pixel div 256] @
                    [px_r example_pixel, px_g example_pixel, px_b example_pixel] @
                    [uid (example_tokens ! 0) mod 256, uid (example_tokens ! 0) div 256 mod 256,
                     uid (example_tokens ! 0) div 65536 mod 256] @
                    [0, 17, 34, 51, 68, 85, 102, 119, 136, 153, 170, 187, 204, 221, 238, 255] @
                    [paint_id example_client mod 256, paint_id example_client div 256 mod 256,
                     paint_id example_client div 65536 mod 256,
                     paint_id example_client div 16777216]"
    by blast
  have "packet = [254, 231, 3, 87, 2, 255, 128, 0, 82, 1, 16,
                0, 17, 34, 51, 68, 85, 102, 119, 136, 153, 170, 187, 204, 221, 238, 255,
                0, 0, 0, 0]"
    unfolding lay px tk st by simp
  then show ?thesis using e by (simp add: px)
qed

end
